theory Spec2Isabelle
  imports Main
begin

section \<open>Python values as decoded from JSON\<close>

text \<open>
  The node list is whatever \<^verbatim>\<open>r.json()\<close> decodes: \<^verbatim>\<open>None\<close>, booleans,
  integers, strings, lists and dictionaries. A string is a sequence of code points below
  256 (one \<^typ>\<open>char\<close> each); a dictionary is its items in insertion order, keys
  distinct, and \<^verbatim>\<open>d.get(k)\<close> finds the item of key \<^verbatim>\<open>k\<close>. JSON numbers with a
  fraction or an exponent (Python floats) are not part of the model.
\<close>

datatype pyval =
    PNone
  | PBool bool
  | PInt int
  | PStr string
  | PList "pyval list"
  | PDict "(string \<times> pyval) list"

datatype py_exception =
    BifrostAPIError string
  | RuntimeError string
  | TypeError
  | ValueError
  | AttributeError
  | ValueConstraintError
  | LibraryError string

subsection \<open>Truthiness: the operand test of \<^verbatim>\<open>or\<close> and \<^verbatim>\<open>if\<close>\<close>

fun py_truthy :: "pyval \<Rightarrow> bool" where
  "py_truthy PNone = False"
| "py_truthy (PBool b) = b"
| "py_truthy (PInt i) = (i \<noteq> 0)"
| "py_truthy (PStr s) = (s \<noteq> [])"
| "py_truthy (PList xs) = (xs \<noteq> [])"
| "py_truthy (PDict kvs) = (kvs \<noteq> [])"

definition py_or :: "pyval \<Rightarrow> pyval \<Rightarrow> pyval" where
  "py_or a b = (if py_truthy a then a else b)"

subsection \<open>\<^verbatim>\<open>str()\<close> and \<^verbatim>\<open>repr()\<close>\<close>

definition digit_char :: "nat \<Rightarrow> char" where
  "digit_char d = char_of (48 + d)"

fun str_nat :: "nat \<Rightarrow> string" where
  "str_nat n = (if n < 10 then [digit_char n] else str_nat (n div 10) @ [digit_char (n mod 10)])"

declare str_nat.simps [simp del]

definition str_int :: "int \<Rightarrow> string" where
  "str_int i = (if i < 0 then CHR ''-'' # str_nat (nat (- i)) else str_nat (nat i))"

definition hex_char :: "nat \<Rightarrow> char" where
  "hex_char d = (if d < 10 then char_of (48 + d) else char_of (87 + d))"

definition py_printable :: "char \<Rightarrow> bool" where
  "py_printable c = (let n = (of_char c :: nat) in
     32 \<le> n \<and> n \<noteq> 127 \<and> \<not> (128 \<le> n \<and> n \<le> 160) \<and> n \<noteq> 173)"

definition repr_char :: "char \<Rightarrow> char \<Rightarrow> string" where
  "repr_char q c =
     (if c = q \<or> c = CHR 0x5C then [CHR 0x5C, c]
      else if c = CHR 0x09 then [CHR 0x5C, CHR ''t'']
      else if c = CHR 0x0A then [CHR 0x5C, CHR ''n'']
      else if c = CHR 0x0D then [CHR 0x5C, CHR ''r'']
      else if py_printable c then [c]
      else [CHR 0x5C, CHR ''x'', hex_char (of_char c div 16), hex_char (of_char c mod 16)])"

definition repr_str :: "string \<Rightarrow> string" where
  "repr_str s =
     (let q = (if CHR 0x27 \<in> set s \<and> CHR 0x22 \<notin> set s then CHR 0x22 else CHR 0x27)
      in q # concat (map (repr_char q) s) @ [q])"

fun join_str :: "string \<Rightarrow> string list \<Rightarrow> string" where
  "join_str sep [] = []"
| "join_str sep [x] = x"
| "join_str sep (x # y # ys) = x @ sep @ join_str sep (y # ys)"

primrec py_repr :: "pyval \<Rightarrow> string" where
  "py_repr PNone = ''None''"
| "py_repr (PBool b) = (if b then ''True'' else ''False'')"
| "py_repr (PInt i) = str_int i"
| "py_repr (PStr s) = repr_str s"
| "py_repr (PList xs) = ''['' @ join_str '', '' (map py_repr xs) @ '']''"
| "py_repr (PDict kvs) =
     ''{'' @ join_str '', '' (map (\<lambda>kv. repr_str (fst kv) @ '': '' @ snd kv)
                               (map (map_prod id py_repr) kvs)) @ ''}''"

definition py_str :: "pyval \<Rightarrow> string" where
  "py_str v = (case v of PStr s \<Rightarrow> s | _ \<Rightarrow> py_repr v)"

subsection \<open>\<^verbatim>\<open>str.lower()\<close>\<close>

definition lower_char :: "char \<Rightarrow> char" where
  "lower_char c = (let n = (of_char c :: nat) in
     if (65 \<le> n \<and> n \<le> 90) \<or> (192 \<le> n \<and> n \<le> 214) \<or> (216 \<le> n \<and> n \<le> 222)
     then char_of (n + 32) else c)"

definition py_lower :: "string \<Rightarrow> string" where
  "py_lower s = map lower_char s"

subsection \<open>\<^verbatim>\<open>int()\<close>\<close>

text \<open>
  \<^verbatim>\<open>int(s)\<close> of a string drops the white space around it (tab to carriage return,
  space, U+0085 and U+00A0 among the code points below 256), reads an optional sign and
  then decimal digits.
\<close>

definition int_space :: "char \<Rightarrow> bool" where
  "int_space c = (let n = (of_char c :: nat) in
     (9 \<le> n \<and> n \<le> 13) \<or> n = 32 \<or> n = 133 \<or> n = 160)"

definition py_isdigit :: "char \<Rightarrow> bool" where
  "py_isdigit c = (let n = (of_char c :: nat) in 48 \<le> n \<and> n \<le> 57)"

definition py_strip :: "string \<Rightarrow> string" where
  "py_strip s = rev (dropWhile int_space (rev (dropWhile int_space s)))"

text \<open>
  The digits of a decimal literal: single underscores are allowed between digits only.
  The flag records whether the previous character was a digit.
\<close>

fun int_digits :: "bool \<Rightarrow> int \<Rightarrow> string \<Rightarrow> int option" where
  "int_digits prev acc [] = (if prev then Some acc else None)"
| "int_digits prev acc (c # cs) =
     (if py_isdigit c then int_digits True (acc * 10 + (int (of_char c) - 48)) cs
      else if c = CHR ''_'' \<and> prev then int_digits False acc cs
      else None)"

definition int_of_str :: "string \<Rightarrow> int option" where
  "int_of_str s =
     (case py_strip s of
        [] \<Rightarrow> None
      | c # cs \<Rightarrow>
          if c = CHR ''-'' then map_option uminus (int_digits False 0 cs)
          else if c = CHR ''+'' then int_digits False 0 cs
          else int_digits False 0 (c # cs))"

fun py_int :: "pyval \<Rightarrow> py_exception + int" where
  "py_int PNone = Inl TypeError"
| "py_int (PBool b) = Inr (if b then 1 else 0)"
| "py_int (PInt i) = Inr i"
| "py_int (PStr s) = (case int_of_str s of None \<Rightarrow> Inl ValueError | Some i \<Rightarrow> Inr i)"
| "py_int (PList xs) = Inl TypeError"
| "py_int (PDict kvs) = Inl TypeError"

subsection \<open>\<^verbatim>\<open>dict.get\<close>\<close>

definition dict_get_default :: "(string \<times> pyval) list \<Rightarrow> string \<Rightarrow> pyval \<Rightarrow> pyval" where
  "dict_get_default d k dflt = (case map_of d k of None \<Rightarrow> dflt | Some v \<Rightarrow> v)"

definition dict_get :: "(string \<times> pyval) list \<Rightarrow> string \<Rightarrow> pyval" where
  "dict_get d k = dict_get_default d k PNone"

section \<open>Configuration\<close>

text \<open>
  The module reads its settings from the environment once, when it is loaded. A setting
  read without a default is \<^verbatim>\<open>None\<close> when the variable is not set.
\<close>

record config =
  API_URL :: "string option"
  API_USER :: "string option"
  API_PASS :: "string option"
  TRAP_RECEIVER_IP :: "string option"
  TRAP_RECEIVER_PORT :: int
  SNMP_COMMUNITY :: string
  ENTERPRISE_TRAP_OID :: string
  DEFAULT_LOCATION :: string

definition TIMEOUT_SECONDS :: int where
  "TIMEOUT_SECONDS = 5"

section \<open>What a run does, as a trace\<close>

text \<open>
  The writes to the two logs, the prints, the pacing sleeps and the calls of the
  translator and of the sender, in the order they happen. A log entry is kept without its
  time stamp and its durations; the sleep is in milliseconds.
\<close>

datatype ObjectIdentity = ObjectIdentity string

text \<open>
  An octet string is kept as its octets, one \<^typ>\<open>char\<close> each; an object identity as
  the dotted text it is made of.
\<close>

datatype OctetString = OctetString string

type_synonym varbind = "ObjectIdentity \<times> OctetString"

datatype event =
    ErrorLog string py_exception
  | ExecLogFetch nat
  | ExecLogSent nat
  | Build pyval
  | SendTrap "varbind list" "string option"
  | Sleep nat
  | PrintOk
  | PrintError py_exception

section \<open>Fetching the nodes\<close>

text \<open>
  \<^verbatim>\<open>requests.get\<close> is the world's answer to the request: it raises, or it gives a
  response with a status code and a body that \<^verbatim>\<open>r.json()\<close> decodes or rejects.
\<close>

record http_response =
  status_code :: int
  json :: "py_exception + pyval"

type_synonym requests_get =
  "string option \<Rightarrow> string option \<times> string option \<Rightarrow> int \<Rightarrow> py_exception + http_response"

definition msg_401 :: string where
  "msg_401 = ''Credenciales inv'' @ [CHR 0xE1] @ ''lidas (401)''"

definition fetch_body :: "config \<Rightarrow> requests_get \<Rightarrow> py_exception + pyval list" where
  "fetch_body cfg get =
     (case get (API_URL cfg) (API_USER cfg, API_PASS cfg) TIMEOUT_SECONDS of
        Inl e \<Rightarrow> Inl e
      | Inr r \<Rightarrow>
          if status_code r = 401 then Inl (BifrostAPIError msg_401)
          else if status_code r \<noteq> 200 then
            Inl (BifrostAPIError (''Respuesta inesperada: '' @ str_int (status_code r)))
          else
            (case json r of
               Inl e \<Rightarrow> Inl e
             | Inr data \<Rightarrow>
                 (case data of
                    PList xs \<Rightarrow> Inr xs
                  | _ \<Rightarrow> Inl (BifrostAPIError ''El payload no es una lista''))))"

definition obtener_nodos ::
  "config \<Rightarrow> requests_get \<Rightarrow> (py_exception + pyval list) \<times> event list" where
  "obtener_nodos cfg get =
     (case fetch_body cfg get of
        Inl e \<Rightarrow> (Inl e, [ErrorLog ''Error al obtener nodos'' e])
      | Inr xs \<Rightarrow> (Inr xs, []))"

section \<open>Translating a node\<close>

definition ip_mock_por_nodeid :: "int \<Rightarrow> string" where
  "ip_mock_por_nodeid node_id =
     (let a = (node_id div 256) mod 256;
          b = node_id mod 256
      in ''10.199.'' @ str_int a @ ''.'' @ str_int b)"

text \<open>
  The class \<^verbatim>\<open>OctetString\<close> belongs to pysnmp, not to this program: the translator
  takes its constructor as the parameter \<open>octet\<close>, a function that makes an octet string
  of a value or raises. \<^verbatim>\<open>ObjectIdentity\<close> only stores its argument.

  The translator first reads the fields of the node into its local variables; these are
  the nine pairs of an object identifier and of the value that the constructor is called
  on, in the order of the list that the translator returns.
\<close>

definition varbind_args :: "config \<Rightarrow> (string \<times> pyval) list \<Rightarrow> int \<Rightarrow> (string \<times> pyval) list" where
  "varbind_args cfg d node_id =
     (let caption = py_str (dict_get_default d ''Caption''
                      (PStr (''node-'' @ str_int node_id)));
          status = py_lower (py_str (dict_get_default d ''Status'' (PStr ''unknown'')));
          vendor = py_str (dict_get_default d ''Vendor'' (PStr ''unknown''));
          node_ip = py_or (dict_get d ''NodeIP'') (PStr (ip_mock_por_nodeid node_id));
          location = py_str (py_or (dict_get d ''location'')
                                    (PStr (DEFAULT_LOCATION cfg)));
          SYSUPTIME_OID = ''1.3.6.1.2.1.1.3.0'';
          SNMP_TRAP_OID = ''1.3.6.1.6.3.1.1.4.1.0'';
          GENERIC_OID = ''1.3.6.1.6.3.1.1.4.3.0'';
          SYSLOCATION_OID = ''1.3.6.1.2.1.1.6.0'';
          STATUS_OID = ENTERPRISE_TRAP_OID cfg @ ''.1'';
          CAPTION_OID = ENTERPRISE_TRAP_OID cfg @ ''.2'';
          NODE_IP_OID = ENTERPRISE_TRAP_OID cfg @ ''.3'';
          NODE_ID_OID = ENTERPRISE_TRAP_OID cfg @ ''.4'';
          VENDOR_OID = ENTERPRISE_TRAP_OID cfg @ ''.5''
      in [(SYSUPTIME_OID, PStr ''0''),
          (SNMP_TRAP_OID, PStr (ENTERPRISE_TRAP_OID cfg)),
          (GENERIC_OID, PStr ''1.3.6.1.4.1.11307''),
          (SYSLOCATION_OID, PStr location),
          (STATUS_OID, PStr status),
          (CAPTION_OID, PStr caption),
          (NODE_IP_OID, node_ip),
          (NODE_ID_OID, PStr (str_int node_id)),
          (VENDOR_OID, PStr vendor)])"

text \<open>
  One pair of the list: the object identity and the octet string of the value, or the
  exception of the constructor.
\<close>

definition varbind ::
  "(pyval \<Rightarrow> py_exception + OctetString) \<Rightarrow> string \<times> pyval \<Rightarrow> py_exception + varbind" where
  "varbind octet p =
     (case octet (snd p) of
        Inl e \<Rightarrow> Inl e
      | Inr x \<Rightarrow> Inr (ObjectIdentity (fst p), x))"

text \<open>
  A list display evaluates its items from left to right; the first exception leaves it.
\<close>

fun collect :: "('e + 'a) list \<Rightarrow> 'e + 'a list" where
  "collect [] = Inr []"
| "collect (Inl e # rs) = Inl e"
| "collect (Inr x # rs) = (case collect rs of Inl e \<Rightarrow> Inl e | Inr xs \<Rightarrow> Inr (x # xs))"

text \<open>A node that is not a dictionary has no \<^verbatim>\<open>get\<close>.\<close>

definition construir_varbinds ::
  "config \<Rightarrow> (pyval \<Rightarrow> py_exception + OctetString) \<Rightarrow> pyval \<Rightarrow> py_exception + varbind list" where
  "construir_varbinds cfg octet nodo =
     (case nodo of
        PDict d \<Rightarrow>
          (case py_int (dict_get d ''NodeID'') of
             Inl e \<Rightarrow> Inl e
           | Inr node_id \<Rightarrow> collect (map (varbind octet) (varbind_args cfg d node_id)))
      | _ \<Rightarrow> Inl AttributeError)"

subsection \<open>The constructor of pysnmp\<close>

text \<open>
  \<^verbatim>\<open>OctetString(value)\<close> as pysnmp defines it (its RFC 1902 type over the octet
  string of pyasn1). A \<^verbatim>\<open>str\<close> is encoded as ISO-8859-1, which keeps every code point
  below 256 as one octet. Any other value goes through \<^verbatim>\<open>bytes(value)\<close>: an integer
  \<open>n\<close> gives \<open>n\<close> zero octets, and \<^verbatim>\<open>ValueError\<close> when it is negative (a boolean is
  the integer 1 or 0); a list gives its items as octets, each of them an integer from 0
  to 255, with \<^verbatim>\<open>TypeError\<close> for another kind of item and \<^verbatim>\<open>ValueError\<close> for
  another integer; a dictionary is iterated over its keys, which are strings, so that
  only the empty one passes; \<^verbatim>\<open>None\<close> gives \<^verbatim>\<open>TypeError\<close>. The type holds at most
  65535 octets: more of them violate its size constraint. (An integer too large for
  Python to build that many octets fails in \<^verbatim>\<open>bytes\<close> already; the model has one
  failure for both.)
\<close>

fun byte_item :: "pyval \<Rightarrow> py_exception + char" where
  "byte_item (PInt i) = (if 0 \<le> i \<and> i < 256 then Inr (char_of (nat i)) else Inl ValueError)"
| "byte_item (PBool b) = Inr (if b then CHR 0x01 else CHR 0x00)"
| "byte_item v = Inl TypeError"

fun py_bytes :: "pyval \<Rightarrow> py_exception + string" where
  "py_bytes PNone = Inl TypeError"
| "py_bytes (PBool b) = Inr (if b then [CHR 0x00] else [])"
| "py_bytes (PInt i) = (if i < 0 then Inl ValueError else Inr (replicate (nat i) (CHR 0x00)))"
| "py_bytes (PStr s) = Inl TypeError"
| "py_bytes (PList xs) = collect (map byte_item xs)"
| "py_bytes (PDict kvs) = (if kvs = [] then Inr [] else Inl TypeError)"

definition sized :: "string \<Rightarrow> py_exception + OctetString" where
  "sized octets = (if length octets \<le> 65535 then Inr (OctetString octets)
                   else Inl ValueConstraintError)"

definition pysnmp_OctetString :: "pyval \<Rightarrow> py_exception + OctetString" where
  "pysnmp_OctetString v =
     (case v of
        PStr s \<Rightarrow> sized s
      | _ \<Rightarrow> (case py_bytes v of Inl e \<Rightarrow> Inl e | Inr octets \<Rightarrow> sized octets))"

section \<open>Sending a trap\<close>

text \<open>
  What the notification call gives back, as far as the sender looks at it: the error
  indication is false (\<^verbatim>\<open>None\<close>) or an object that is true and prints as a text; the
  error status is a number with the name \<^verbatim>\<open>prettyPrint\<close> gives it; the error index
  is a number. A result that is not a 4-tuple is taken as the indication itself. The
  library call is the world's answer for a transport address, a community, the trap's
  identity and the varbinds; opening the transport or sending may raise.
\<close>

datatype error_indication = NoIndication | Indication string

record error_status =
  status_value :: int
  status_text :: string

datatype notification_result =
    Tuple4 error_indication error_status int
  | NotTuple4 error_indication

type_synonym send_notification =
  "string option \<times> int \<Rightarrow> string \<Rightarrow> ObjectIdentity \<Rightarrow> varbind list
     \<Rightarrow> py_exception + notification_result"

definition unpack_result :: "notification_result \<Rightarrow> error_indication \<times> error_status \<times> int" where
  "unpack_result res =
     (case res of
        Tuple4 i s x \<Rightarrow> (i, s, x)
      | NotTuple4 i \<Rightarrow> (i, \<lparr>status_value = 0, status_text = ''0''\<rparr>, 0))"

definition enviar_trap ::
  "config \<Rightarrow> send_notification \<Rightarrow> varbind list \<Rightarrow> string option \<Rightarrow> py_exception + unit" where
  "enviar_trap cfg send varbinds target =
     (case send (target, TRAP_RECEIVER_PORT cfg) (SNMP_COMMUNITY cfg)
             (ObjectIdentity (ENTERPRISE_TRAP_OID cfg)) varbinds of
        Inl e \<Rightarrow> Inl e
      | Inr res \<Rightarrow>
          (let (error_indication, error_status, error_index) = unpack_result res
           in case error_indication of
                Indication msg \<Rightarrow> Inl (RuntimeError msg)
              | NoIndication \<Rightarrow>
                  if status_value error_status \<noteq> 0
                  then Inl (RuntimeError (status_text error_status @ '' at '' @ str_int error_index))
                  else Inr ()))"

section \<open>The run\<close>

text \<open>
  The loop of \<^verbatim>\<open>main\<close> over the nodes. The network may answer each send differently:
  \<open>net i\<close> is its answer to the send number \<open>i\<close> of the run, counted from \<open>0\<close>. The
  constructor of the octet strings is handed down to the translator.
\<close>

fun main_loop ::
  "config \<Rightarrow> (pyval \<Rightarrow> py_exception + OctetString) \<Rightarrow> (nat \<Rightarrow> send_notification) \<Rightarrow> nat
     \<Rightarrow> pyval list \<Rightarrow> (py_exception + unit) \<times> event list" where
  "main_loop cfg octet net i [] = (Inr (), [])"
| "main_loop cfg octet net i (nodo # rest) =
     (case construir_varbinds cfg octet nodo of
        Inl e \<Rightarrow> (Inl e, [Build nodo])
      | Inr vb \<Rightarrow>
          (case enviar_trap cfg (net i) vb (TRAP_RECEIVER_IP cfg) of
             Inl e \<Rightarrow> (Inl e, [Build nodo, SendTrap vb (TRAP_RECEIVER_IP cfg)])
           | Inr u \<Rightarrow>
               (case main_loop cfg octet net (Suc i) rest of
                  (r, tr) \<Rightarrow>
                    (r, [Build nodo, SendTrap vb (TRAP_RECEIVER_IP cfg), Sleep 20] @ tr))))"

definition main ::
  "config \<Rightarrow> (pyval \<Rightarrow> py_exception + OctetString) \<Rightarrow> requests_get
     \<Rightarrow> (nat \<Rightarrow> send_notification) \<Rightarrow> (py_exception + unit) \<times> event list" where
  "main cfg octet get net =
     (case obtener_nodos cfg get of
        (Inl e, tr) \<Rightarrow> (Inl e, tr)
      | (Inr nodos, tr) \<Rightarrow>
          (case main_loop cfg octet net 0 nodos of
             (Inl e, tr2) \<Rightarrow> (Inl e, tr @ [ExecLogFetch (length nodos)] @ tr2)
           | (Inr u, tr2) \<Rightarrow>
               (Inr (), tr @ [ExecLogFetch (length nodos)] @ tr2
                           @ [ExecLogSent (length nodos), PrintOk])))"

text \<open>The script's entry: a failure of \<^verbatim>\<open>main\<close> is logged and printed.\<close>

definition run ::
  "config \<Rightarrow> (pyval \<Rightarrow> py_exception + OctetString) \<Rightarrow> requests_get
     \<Rightarrow> (nat \<Rightarrow> send_notification) \<Rightarrow> event list" where
  "run cfg octet get net =
     (case main cfg octet get net of
        (Inl e, tr) \<Rightarrow> tr @ [ErrorLog ''Fallo en BIFROST sender'' e, PrintError e]
      | (Inr u, tr) \<Rightarrow> tr)"

section \<open>Reading a trace\<close>

text \<open>
  The nodes the translator was called on, the varbind sets handed to the sender, and the
  time the run spent in its pacing sleeps, in milliseconds.
\<close>

fun built :: "event list \<Rightarrow> pyval list" where
  "built [] = []"
| "built (Build nodo # es) = nodo # built es"
| "built (e # es) = built es"

fun sent :: "event list \<Rightarrow> varbind list list" where
  "sent [] = []"
| "sent (SendTrap vb target # es) = vb # sent es"
| "sent (e # es) = sent es"

fun sleep_total :: "event list \<Rightarrow> nat" where
  "sleep_total [] = 0"
| "sleep_total (Sleep ms # es) = ms + sleep_total es"
| "sleep_total (e # es) = sleep_total es"

text \<open>
  A trace is paced when no send follows another send without a sleep of at least 20
  milliseconds between them. The flag tells that a send is still waiting for its sleep.
\<close>

fun paced :: "bool \<Rightarrow> event list \<Rightarrow> bool" where
  "paced w [] = True"
| "paced w (SendTrap vb target # es) = (\<not> w \<and> paced True es)"
| "paced w (Sleep ms # es) = paced (w \<and> ms < 20) es"
| "paced w (e # es) = paced w es"

fun summary_emitted :: "event list \<Rightarrow> bool" where
  "summary_emitted [] = False"
| "summary_emitted (ExecLogSent n # es) = True"
| "summary_emitted (e # es) = summary_emitted es"

text \<open>A node goes through when its translation returns and its send succeeds.\<close>

definition node_ok ::
  "config \<Rightarrow> (pyval \<Rightarrow> py_exception + OctetString) \<Rightarrow> send_notification \<Rightarrow> pyval \<Rightarrow> bool" where
  "node_ok cfg octet send nodo =
     (case construir_varbinds cfg octet nodo of
        Inl e \<Rightarrow> False
      | Inr vb \<Rightarrow> enviar_trap cfg send vb (TRAP_RECEIVER_IP cfg) = Inr ())"

section \<open>The specification's names\<close>

text \<open>
  The program raises one class, \<^verbatim>\<open>BifrostAPIError\<close>, for the three failures of the
  fetch and \<^verbatim>\<open>RuntimeError\<close> for the two failures of a send; only the message
  differs. The specification names them as follows.
\<close>

definition AuthError :: py_exception where
  "AuthError = BifrostAPIError msg_401"

definition UnexpectedResponseError :: "int \<Rightarrow> py_exception" where
  "UnexpectedResponseError code = BifrostAPIError (''Respuesta inesperada: '' @ str_int code)"

definition MalformedPayloadError :: py_exception where
  "MalformedPayloadError = BifrostAPIError ''El payload no es una lista''"

definition TransportError :: "string \<Rightarrow> py_exception" where
  "TransportError msg = RuntimeError msg"

definition ProtocolError :: "error_status \<Rightarrow> int \<Rightarrow> py_exception" where
  "ProtocolError st idx = RuntimeError (status_text st @ '' at '' @ str_int idx)"

text \<open>A sequence of records, in the specification's words: a list of dictionaries.\<close>

definition sequence_of_records :: "pyval \<Rightarrow> bool" where
  "sequence_of_records data =
     (case data of
        PList xs \<Rightarrow> list_all (\<lambda>x. case x of PDict d \<Rightarrow> True | _ \<Rightarrow> False) xs
      | _ \<Rightarrow> False)"

section \<open>Scenarios\<close>

text \<open>
  The pieces of the end-to-end scenarios: a node that has only its \<^verbatim>\<open>NodeID\<close>, an API
  that answers 200 with a given body, a notification call that returns a given result or
  raises, a receiver that takes a trap and one that answers with a protocol error.
\<close>

definition node :: "int \<Rightarrow> pyval" where
  "node i = PDict [(''NodeID'', PInt i)]"

definition answer :: "pyval \<Rightarrow> requests_get" where
  "answer body = (\<lambda>url auth timeout. Inr \<lparr>status_code = 200, json = Inr body\<rparr>)"

definition answered :: "notification_result \<Rightarrow> send_notification" where
  "answered res = (\<lambda>addr community oid vbs. Inr res)"

definition raising :: "py_exception \<Rightarrow> send_notification" where
  "raising e = (\<lambda>addr community oid vbs. Inl e)"

definition delivered :: send_notification where
  "delivered = answered (Tuple4 NoIndication \<lparr>status_value = 0, status_text = ''noError''\<rparr> 0)"

definition rejected :: send_notification where
  "rejected = answered (Tuple4 NoIndication \<lparr>status_value = 2, status_text = ''noSuchName''\<rparr> 3)"

text \<open>The configuration when no environment variable is set.\<close>

definition default_config :: config where
  "default_config = \<lparr>API_URL = None, API_USER = None, API_PASS = None,
     TRAP_RECEIVER_IP = None, TRAP_RECEIVER_PORT = 1162, SNMP_COMMUNITY = ''public'',
     ENTERPRISE_TRAP_OID = ''1.3.6.1.4.1.11307.10'', DEFAULT_LOCATION = ''unknown''\<rparr>"

section \<open>The translator\<close>

lemma collect_map_Inr: "collect (map Inr xs) = Inr xs"
  by (induction xs) simp_all

lemma collect_InrD: "collect rs = Inr xs \<Longrightarrow> rs = map Inr xs"
  by (induction rs arbitrary: xs rule: collect.induct) (auto split: sum.splits)

lemma collect_Inr_iff: "collect rs = Inr xs \<longleftrightarrow> rs = map Inr xs"
  using collect_InrD collect_map_Inr by blast


lemma collect_returns_iff: "(\<exists>xs. collect rs = Inr xs) \<longleftrightarrow> (\<forall>r \<in> set rs. \<exists>x. r = Inr x)"
proof (induction rs rule: collect.induct)
  case 1
  show ?case by simp
next
  case (2 e rs)
  show ?case by auto
next
  case (3 x rs)
  then show ?case by (auto split: sum.splits)
qed

lemma varbind_Inr_iff:
  "varbind octet p = Inr vb \<longleftrightarrow> (\<exists>x. octet (snd p) = Inr x \<and> vb = (ObjectIdentity (fst p), x))"
  by (auto simp add: varbind_def split: sum.splits)


lemma collect_varbinds_length:
  "collect (map (varbind octet) ps) = Inr vbs \<Longrightarrow> length vbs = length ps"
  by (metis collect_Inr_iff length_map)

lemma collect_varbinds_nth:
  assumes "collect (map (varbind octet) ps) = Inr vbs" and "i < length ps"
  shows "fst (vbs ! i) = ObjectIdentity (fst (ps ! i)) \<and> octet (snd (ps ! i)) = Inr (snd (vbs ! i))"
proof -
  from assms(1) have m: "map (varbind octet) ps = map Inr vbs"
    by (simp add: collect_Inr_iff)
  then have "length vbs = length ps" by (metis length_map)
  with m assms(2) have "varbind octet (ps ! i) = Inr (vbs ! i)"
    by (metis nth_map)
  then show ?thesis by (auto simp add: varbind_Inr_iff)
qed

lemma collect_varbinds_returns_iff:
  "(\<exists>vbs. collect (map (varbind octet) ps) = Inr vbs)
     \<longleftrightarrow> (\<forall>p \<in> set ps. \<exists>x. octet (snd p) = Inr x)"
  by (auto simp add: collect_returns_iff varbind_Inr_iff)


lemma construir_varbinds_dict:
  assumes "py_int (dict_get d ''NodeID'') = Inr n"
  shows "construir_varbinds cfg octet (PDict d)
           = collect (map (varbind octet) (varbind_args cfg d n))"
  using assms by (simp add: construir_varbinds_def)

lemma construir_varbinds_fail:
  assumes "py_int (dict_get d ''NodeID'') = Inl e"
  shows "construir_varbinds cfg octet (PDict d) = Inl e"
  using assms by (simp add: construir_varbinds_def)

lemma construir_varbinds_returns_iff:
  assumes "py_int (dict_get d ''NodeID'') = Inr n"
  shows "(\<exists>vbs. construir_varbinds cfg octet (PDict d) = Inr vbs)
          \<longleftrightarrow> (\<forall>p \<in> set (varbind_args cfg d n). \<exists>x. octet (snd p) = Inr x)"
  unfolding construir_varbinds_dict [OF assms] by (rule collect_varbinds_returns_iff)

lemma varbind_args_list:
  "varbind_args cfg d n =
     [(''1.3.6.1.2.1.1.3.0'', PStr ''0''),
      (''1.3.6.1.6.3.1.1.4.1.0'', PStr (ENTERPRISE_TRAP_OID cfg)),
      (''1.3.6.1.6.3.1.1.4.3.0'', PStr ''1.3.6.1.4.1.11307''),
      (''1.3.6.1.2.1.1.6.0'',
         PStr (py_str (py_or (dict_get d ''location'') (PStr (DEFAULT_LOCATION cfg))))),
      (ENTERPRISE_TRAP_OID cfg @ ''.1'',
         PStr (py_lower (py_str (dict_get_default d ''Status'' (PStr ''unknown''))))),
      (ENTERPRISE_TRAP_OID cfg @ ''.2'',
         PStr (py_str (dict_get_default d ''Caption'' (PStr (''node-'' @ str_int n))))),
      (ENTERPRISE_TRAP_OID cfg @ ''.3'',
         py_or (dict_get d ''NodeIP'') (PStr (ip_mock_por_nodeid n))),
      (ENTERPRISE_TRAP_OID cfg @ ''.4'', PStr (str_int n)),
      (ENTERPRISE_TRAP_OID cfg @ ''.5'',
         PStr (py_str (dict_get_default d ''Vendor'' (PStr ''unknown''))))]"
  by (simp add: varbind_args_def Let_def)

lemma varbind_args_length: "length (varbind_args cfg d n) = 9"
  by (simp add: varbind_args_list)

lemma dict_get_Some:
  "map_of d k = Some v \<Longrightarrow> dict_get d k = v"
  "map_of d k = Some v \<Longrightarrow> dict_get_default d k x = v"
  by (simp_all add: dict_get_def dict_get_default_def)

lemma dict_get_None:
  "map_of d k = None \<Longrightarrow> dict_get d k = PNone"
  "map_of d k = None \<Longrightarrow> dict_get_default d k x = x"
  by (simp_all add: dict_get_def dict_get_default_def)

lemma py_or_falsy: "\<not> py_truthy a \<Longrightarrow> py_or a b = b"
  by (simp add: py_or_def)


lemma py_str_simps:
  "py_str (PStr s) = s"
  "py_str PNone = ''None''"
  by (simp_all add: py_str_def)

lemma py_lower_unknown: "py_lower ''unknown'' = ''unknown''"
  by (simp add: py_lower_def lower_char_def)

lemma str_int_5: "str_int 5 = ''5''"
  by code_simp


lemma str_int_3: "str_int 3 = ''3''"
  by code_simp

lemma str_int_123: "str_int 1 = ''1''" "str_int 2 = ''2''"
  by code_simp+


lemma ip_mock_5: "ip_mock_por_nodeid 5 = ''10.199.0.5''"
  by code_simp

lemma ip_mock_123:
  "ip_mock_por_nodeid 1 = ''10.199.0.1''"
  "ip_mock_por_nodeid 2 = ''10.199.0.2''"
  "ip_mock_por_nodeid 3 = ''10.199.0.3''"
  by code_simp+

lemma py_int_NodeID: "py_int (dict_get ((''NodeID'', PInt i) # kvs) ''NodeID'') = Inr i"
  by (simp add: dict_get_def dict_get_default_def)

lemma pysnmp_OctetString_text:
  "length s \<le> 65535 \<Longrightarrow> pysnmp_OctetString (PStr s) = Inr (OctetString s)"
  by (simp add: pysnmp_OctetString_def sized_def)

lemma varbind_pysnmp_text:
  "length s \<le> 65535 \<Longrightarrow>
     varbind pysnmp_OctetString (oid, PStr s) = Inr (ObjectIdentity oid, OctetString s)"
  by (simp add: varbind_def pysnmp_OctetString_text)




text \<open>
  C2. For a node whose \<^verbatim>\<open>NodeID\<close> coerces to the integer \<open>n\<close>, a missing optional
  field is resolved to its default: the value for \<^verbatim>\<open>.1\<close> is \<^verbatim>\<open>"unknown"\<close> when
  \<^verbatim>\<open>Status\<close> is missing, the value for \<^verbatim>\<open>.2\<close> is \<^verbatim>\<open>"node-"\<close> followed by \<open>n\<close> when
  \<^verbatim>\<open>Caption\<close> is missing, the value for \<^verbatim>\<open>.5\<close> is \<^verbatim>\<open>"unknown"\<close> when \<^verbatim>\<open>Vendor\<close> is
  missing, and the value for sysLocation.0 is the configured default location when
  \<^verbatim>\<open>location\<close> is missing. The translator returns the octet strings of its nine values
  exactly when the constructor accepts them all, and whatever it returns has the octet
  string of the default at the position of the missing field.
\<close>

theorem missing_fields_default:
  assumes "py_int (dict_get d ''NodeID'') = Inr n"
  shows "(map_of d ''Status'' = None \<longrightarrow>
            varbind_args cfg d n ! 4 = (ENTERPRISE_TRAP_OID cfg @ ''.1'', PStr ''unknown''))
     \<and> (map_of d ''Caption'' = None \<longrightarrow>
            varbind_args cfg d n ! 5 = (ENTERPRISE_TRAP_OID cfg @ ''.2'', PStr (''node-'' @ str_int n)))
     \<and> (map_of d ''Vendor'' = None \<longrightarrow>
            varbind_args cfg d n ! 8 = (ENTERPRISE_TRAP_OID cfg @ ''.5'', PStr ''unknown''))
     \<and> (map_of d ''location'' = None \<longrightarrow>
            varbind_args cfg d n ! 3 = (''1.3.6.1.2.1.1.6.0'', PStr (DEFAULT_LOCATION cfg)))
     \<and> construir_varbinds cfg octet (PDict d)
           = collect (map (varbind octet) (varbind_args cfg d n))
     \<and> ((\<exists>vbs. construir_varbinds cfg octet (PDict d) = Inr vbs)
          \<longleftrightarrow> (\<forall>p \<in> set (varbind_args cfg d n). \<exists>x. octet (snd p) = Inr x))
     \<and> (\<forall>vbs. construir_varbinds cfg octet (PDict d) = Inr vbs \<longrightarrow>
           length vbs = 9
         \<and> (map_of d ''Status'' = None \<longrightarrow>
              fst (vbs ! 4) = ObjectIdentity (ENTERPRISE_TRAP_OID cfg @ ''.1'')
              \<and> octet (PStr ''unknown'') = Inr (snd (vbs ! 4)))
         \<and> (map_of d ''Caption'' = None \<longrightarrow>
              fst (vbs ! 5) = ObjectIdentity (ENTERPRISE_TRAP_OID cfg @ ''.2'')
              \<and> octet (PStr (''node-'' @ str_int n)) = Inr (snd (vbs ! 5)))
         \<and> (map_of d ''Vendor'' = None \<longrightarrow>
              fst (vbs ! 8) = ObjectIdentity (ENTERPRISE_TRAP_OID cfg @ ''.5'')
              \<and> octet (PStr ''unknown'') = Inr (snd (vbs ! 8)))
         \<and> (map_of d ''location'' = None \<longrightarrow>
              fst (vbs ! 3) = ObjectIdentity ''1.3.6.1.2.1.1.6.0''
              \<and> octet (PStr (DEFAULT_LOCATION cfg)) = Inr (snd (vbs ! 3))))"
proof -
  have a4: "map_of d ''Status'' = None \<longrightarrow>
            varbind_args cfg d n ! 4 = (ENTERPRISE_TRAP_OID cfg @ ''.1'', PStr ''unknown'')"
    by (simp add: varbind_args_list dict_get_None py_str_simps py_lower_unknown)
  have a5: "map_of d ''Caption'' = None \<longrightarrow>
            varbind_args cfg d n ! 5 = (ENTERPRISE_TRAP_OID cfg @ ''.2'', PStr (''node-'' @ str_int n))"
    by (simp add: varbind_args_list dict_get_None py_str_simps)
  have a8: "map_of d ''Vendor'' = None \<longrightarrow>
            varbind_args cfg d n ! 8 = (ENTERPRISE_TRAP_OID cfg @ ''.5'', PStr ''unknown'')"
    by (simp add: varbind_args_list dict_get_None py_str_simps)
  have a3: "map_of d ''location'' = None \<longrightarrow>
            varbind_args cfg d n ! 3 = (''1.3.6.1.2.1.1.6.0'', PStr (DEFAULT_LOCATION cfg))"
    by (simp add: varbind_args_list dict_get_None py_or_falsy py_str_simps)
  note cv = construir_varbinds_dict [OF assms, of cfg octet]
  have r: "(\<exists>vbs. construir_varbinds cfg octet (PDict d) = Inr vbs)
          \<longleftrightarrow> (\<forall>p \<in> set (varbind_args cfg d n). \<exists>x. octet (snd p) = Inr x)"
    unfolding cv by (rule collect_varbinds_returns_iff)
  have out: "\<forall>vbs. construir_varbinds cfg octet (PDict d) = Inr vbs \<longrightarrow>
           length vbs = 9
         \<and> (map_of d ''Status'' = None \<longrightarrow>
              fst (vbs ! 4) = ObjectIdentity (ENTERPRISE_TRAP_OID cfg @ ''.1'')
              \<and> octet (PStr ''unknown'') = Inr (snd (vbs ! 4)))
         \<and> (map_of d ''Caption'' = None \<longrightarrow>
              fst (vbs ! 5) = ObjectIdentity (ENTERPRISE_TRAP_OID cfg @ ''.2'')
              \<and> octet (PStr (''node-'' @ str_int n)) = Inr (snd (vbs ! 5)))
         \<and> (map_of d ''Vendor'' = None \<longrightarrow>
              fst (vbs ! 8) = ObjectIdentity (ENTERPRISE_TRAP_OID cfg @ ''.5'')
              \<and> octet (PStr ''unknown'') = Inr (snd (vbs ! 8)))
         \<and> (map_of d ''location'' = None \<longrightarrow>
              fst (vbs ! 3) = ObjectIdentity ''1.3.6.1.2.1.1.6.0''
              \<and> octet (PStr (DEFAULT_LOCATION cfg)) = Inr (snd (vbs ! 3)))"
  proof (intro allI impI)
    fix vbs
    assume "construir_varbinds cfg octet (PDict d) = Inr vbs"
    then have c: "collect (map (varbind octet) (varbind_args cfg d n)) = Inr vbs"
      by (simp add: cv)
    have n4: "fst (vbs ! 4) = ObjectIdentity (fst (varbind_args cfg d n ! 4))
        \<and> octet (snd (varbind_args cfg d n ! 4)) = Inr (snd (vbs ! 4))"
      by (rule collect_varbinds_nth [OF c]) (simp add: varbind_args_length)
    have n5: "fst (vbs ! 5) = ObjectIdentity (fst (varbind_args cfg d n ! 5))
        \<and> octet (snd (varbind_args cfg d n ! 5)) = Inr (snd (vbs ! 5))"
      by (rule collect_varbinds_nth [OF c]) (simp add: varbind_args_length)
    have n8: "fst (vbs ! 8) = ObjectIdentity (fst (varbind_args cfg d n ! 8))
        \<and> octet (snd (varbind_args cfg d n ! 8)) = Inr (snd (vbs ! 8))"
      by (rule collect_varbinds_nth [OF c]) (simp add: varbind_args_length)
    have n3: "fst (vbs ! 3) = ObjectIdentity (fst (varbind_args cfg d n ! 3))
        \<and> octet (snd (varbind_args cfg d n ! 3)) = Inr (snd (vbs ! 3))"
      by (rule collect_varbinds_nth [OF c]) (simp add: varbind_args_length)
    have l: "length vbs = 9"
      using collect_varbinds_length [OF c] by (simp add: varbind_args_length)
    show "length vbs = 9
         \<and> (map_of d ''Status'' = None \<longrightarrow>
              fst (vbs ! 4) = ObjectIdentity (ENTERPRISE_TRAP_OID cfg @ ''.1'')
              \<and> octet (PStr ''unknown'') = Inr (snd (vbs ! 4)))
         \<and> (map_of d ''Caption'' = None \<longrightarrow>
              fst (vbs ! 5) = ObjectIdentity (ENTERPRISE_TRAP_OID cfg @ ''.2'')
              \<and> octet (PStr (''node-'' @ str_int n)) = Inr (snd (vbs ! 5)))
         \<and> (map_of d ''Vendor'' = None \<longrightarrow>
              fst (vbs ! 8) = ObjectIdentity (ENTERPRISE_TRAP_OID cfg @ ''.5'')
              \<and> octet (PStr ''unknown'') = Inr (snd (vbs ! 8)))
         \<and> (map_of d ''location'' = None \<longrightarrow>
              fst (vbs ! 3) = ObjectIdentity ''1.3.6.1.2.1.1.6.0''
              \<and> octet (PStr (DEFAULT_LOCATION cfg)) = Inr (snd (vbs ! 3)))"
      using l n3 n4 n5 n8 a3 a4 a5 a8 by auto
  qed
  show ?thesis
    using a3 a4 a5 a8 cv r out by blast
qed

theorem missing_fields_default_witness:
  "py_int (dict_get [(''NodeID'', PInt 5)] ''NodeID'') = Inr 5
   \<and> construir_varbinds (default_config\<lparr>DEFAULT_LOCATION := ''lab''\<rparr>) pysnmp_OctetString
        (PDict [(''NodeID'', PInt 5)])
     = Inr
     [(ObjectIdentity ''1.3.6.1.2.1.1.3.0'', OctetString ''0''),
      (ObjectIdentity ''1.3.6.1.6.3.1.1.4.1.0'', OctetString ''1.3.6.1.4.1.11307.10''),
      (ObjectIdentity ''1.3.6.1.6.3.1.1.4.3.0'', OctetString ''1.3.6.1.4.1.11307''),
      (ObjectIdentity ''1.3.6.1.2.1.1.6.0'', OctetString ''lab''),
      (ObjectIdentity ''1.3.6.1.4.1.11307.10.1'', OctetString ''unknown''),
      (ObjectIdentity ''1.3.6.1.4.1.11307.10.2'', OctetString ''node-5''),
      (ObjectIdentity ''1.3.6.1.4.1.11307.10.3'', OctetString ''10.199.0.5''),
      (ObjectIdentity ''1.3.6.1.4.1.11307.10.4'', OctetString ''5''),
      (ObjectIdentity ''1.3.6.1.4.1.11307.10.5'', OctetString ''unknown'')]"
proof -
  have h: "py_int (dict_get [(''NodeID'', PInt 5)] ''NodeID'') = Inr 5"
    by (rule py_int_NodeID)
  have cv: "construir_varbinds (default_config\<lparr>DEFAULT_LOCATION := ''lab''\<rparr>) pysnmp_OctetString
        (PDict [(''NodeID'', PInt 5)])
      = collect (map (varbind pysnmp_OctetString)
          (varbind_args (default_config\<lparr>DEFAULT_LOCATION := ''lab''\<rparr>) [(''NodeID'', PInt 5)] 5))"
    using missing_fields_default [OF h] by blast
  have ev: "collect (map (varbind pysnmp_OctetString)
          (varbind_args (default_config\<lparr>DEFAULT_LOCATION := ''lab''\<rparr>) [(''NodeID'', PInt 5)] 5))
     = Inr
     [(ObjectIdentity ''1.3.6.1.2.1.1.3.0'', OctetString ''0''),
      (ObjectIdentity ''1.3.6.1.6.3.1.1.4.1.0'', OctetString ''1.3.6.1.4.1.11307.10''),
      (ObjectIdentity ''1.3.6.1.6.3.1.1.4.3.0'', OctetString ''1.3.6.1.4.1.11307''),
      (ObjectIdentity ''1.3.6.1.2.1.1.6.0'', OctetString ''lab''),
      (ObjectIdentity ''1.3.6.1.4.1.11307.10.1'', OctetString ''unknown''),
      (ObjectIdentity ''1.3.6.1.4.1.11307.10.2'', OctetString ''node-5''),
      (ObjectIdentity ''1.3.6.1.4.1.11307.10.3'', OctetString ''10.199.0.5''),
      (ObjectIdentity ''1.3.6.1.4.1.11307.10.4'', OctetString ''5''),
      (ObjectIdentity ''1.3.6.1.4.1.11307.10.5'', OctetString ''unknown'')]"
    by (simp add: varbind_args_list default_config_def str_int_5 ip_mock_5
          dict_get_def dict_get_default_def py_or_def py_str_simps py_lower_unknown
          varbind_pysnmp_text)
  show ?thesis
    unfolding cv ev using h by simp
qed

lemma str_nat_255: "str_nat 255 = ''255''"
  by code_simp

text \<open>
  C3. For a \<^verbatim>\<open>NodeID\<close> \<open>n\<close> from 0 to 65535 the synthetic address is
  \<^verbatim>\<open>10.199.a.b\<close> with \<open>a = (n div 256) mod 256\<close> and \<open>b = n mod 256\<close>; there \<open>a\<close> is
  \<open>n div 256\<close> and both octets lie between 0 and 255. The address is a function of
  \<open>n\<close> alone, so a repeated call gives the same address.
\<close>

theorem ip_mock_octets:
  assumes "0 \<le> n" and "n \<le> 65535"
  shows "ip_mock_por_nodeid n =
            ''10.199.'' @ str_int ((n div 256) mod 256) @ ''.'' @ str_int (n mod 256)
         \<and> (n div 256) mod 256 = n div 256
         \<and> 0 \<le> (n div 256) mod 256 \<and> (n div 256) mod 256 \<le> 255
         \<and> 0 \<le> n mod 256 \<and> n mod 256 \<le> 255"
proof -
  have "n div 256 < 256" using assms by simp
  moreover have "0 \<le> n div 256" using assms by simp
  ultimately have "(n div 256) mod 256 = n div 256" by simp
  moreover have "0 \<le> n mod 256" "n mod 256 \<le> 255" by simp_all
  ultimately show ?thesis
    using \<open>0 \<le> n div 256\<close> \<open>n div 256 < 256\<close> by (simp add: ip_mock_por_nodeid_def Let_def)
qed

theorem ip_mock_octets_witness:
  "(0::int) \<le> 65535 \<and> (65535::int) \<le> 65535
   \<and> ip_mock_por_nodeid 65535 = ''10.199.255.255''
   \<and> ip_mock_por_nodeid 65535 = ip_mock_por_nodeid 65535"
proof -
  have "ip_mock_por_nodeid 65535 =
            ''10.199.'' @ str_int ((65535 div 256) mod 256) @ ''.'' @ str_int (65535 mod 256)"
    using ip_mock_octets [of 65535] by simp
  then show ?thesis by (simp add: str_int_def str_nat_255)
qed

text \<open>
  C8. The translator is a function of its inputs alone: two calls give the same result
  whenever the two configurations have the same enterprise OID root and the same default
  location, and the two records agree on the six fields the translator reads. No other
  setting, no other field and nothing of the run's state enters into the result.
\<close>

theorem construir_varbinds_inputs_only:
  assumes "ENTERPRISE_TRAP_OID c1 = ENTERPRISE_TRAP_OID c2"
    and "DEFAULT_LOCATION c1 = DEFAULT_LOCATION c2"
    and "\<forall>k \<in> {''NodeID'', ''Caption'', ''Status'', ''Vendor'', ''NodeIP'', ''location''}.
           map_of d1 k = map_of d2 k"
  shows "construir_varbinds c1 octet (PDict d1) = construir_varbinds c2 octet (PDict d2)"
proof -
  have g: "dict_get d1 ''NodeID'' = dict_get d2 ''NodeID''"
    "dict_get d1 ''NodeIP'' = dict_get d2 ''NodeIP''"
    "dict_get d1 ''location'' = dict_get d2 ''location''"
    using assms(3) by (simp_all add: dict_get_def dict_get_default_def)
  have gd: "\<And>x. dict_get_default d1 ''Caption'' x = dict_get_default d2 ''Caption'' x"
    "\<And>x. dict_get_default d1 ''Status'' x = dict_get_default d2 ''Status'' x"
    "\<And>x. dict_get_default d1 ''Vendor'' x = dict_get_default d2 ''Vendor'' x"
    using assms(3) by (simp_all add: dict_get_default_def)
  have args: "\<And>n. varbind_args c1 d1 n = varbind_args c2 d2 n"
    by (simp add: varbind_args_list g gd assms(1,2))
  show ?thesis
  proof (cases "py_int (dict_get d1 ''NodeID'')")
    case (Inl e)
    then have "py_int (dict_get d2 ''NodeID'') = Inl e" by (simp add: g)
    with Inl show ?thesis by (simp add: construir_varbinds_fail)
  next
    case (Inr n)
    then have "py_int (dict_get d2 ''NodeID'') = Inr n" by (simp add: g)
    with Inr show ?thesis
      by (simp add: construir_varbinds_dict args)
  qed
qed

theorem construir_varbinds_inputs_only_witness:
  "ENTERPRISE_TRAP_OID default_config = ENTERPRISE_TRAP_OID (default_config\<lparr>SNMP_COMMUNITY := ''private''\<rparr>)
   \<and> DEFAULT_LOCATION default_config = DEFAULT_LOCATION (default_config\<lparr>SNMP_COMMUNITY := ''private''\<rparr>)
   \<and> construir_varbinds default_config pysnmp_OctetString
        (PDict [(''NodeID'', PInt 7), (''Status'', PStr ''Up'')])
     = construir_varbinds (default_config\<lparr>SNMP_COMMUNITY := ''private''\<rparr>) pysnmp_OctetString
         (PDict [(''Status'', PStr ''Up''), (''Model'', PStr ''x''), (''NodeID'', PInt 7)])"
  using construir_varbinds_inputs_only [of default_config "default_config\<lparr>SNMP_COMMUNITY := ''private''\<rparr>"
      "[(''NodeID'', PInt 7), (''Status'', PStr ''Up'')]"
      "[(''Status'', PStr ''Up''), (''Model'', PStr ''x''), (''NodeID'', PInt 7)]" pysnmp_OctetString]
  by simp




text \<open>
  C10. The fallbacks are not alike. A \<^verbatim>\<open>NodeIP\<close> that is present but false (the empty
  string, \<^verbatim>\<open>None\<close>, ...) is replaced by the synthetic address, and a \<^verbatim>\<open>location\<close>
  that is present but false by the configured default location. A \<^verbatim>\<open>Caption\<close>,
  \<^verbatim>\<open>Status\<close> or \<^verbatim>\<open>Vendor\<close> that is present is resolved to its own text (the status
  lower-cased), never to the default: the empty string stays the empty string, and a
  \<^verbatim>\<open>None\<close> caption is the text \<^verbatim>\<open>"None"\<close>. Whatever the translator returns has, at
  each of its nine positions, the octet string of the value so resolved.
\<close>

theorem fallback_asymmetry:
  assumes "py_int (dict_get d ''NodeID'') = Inr n"
  shows "(\<forall>v. map_of d ''NodeIP'' = Some v \<and> \<not> py_truthy v \<longrightarrow>
           snd (varbind_args cfg d n ! 6) = PStr (ip_mock_por_nodeid n))
     \<and> (\<forall>v. map_of d ''location'' = Some v \<and> \<not> py_truthy v \<longrightarrow>
           snd (varbind_args cfg d n ! 3) = PStr (DEFAULT_LOCATION cfg))
     \<and> (\<forall>v. map_of d ''Caption'' = Some v \<longrightarrow> snd (varbind_args cfg d n ! 5) = PStr (py_str v))
     \<and> (\<forall>v. map_of d ''Status'' = Some v \<longrightarrow>
           snd (varbind_args cfg d n ! 4) = PStr (py_lower (py_str v)))
     \<and> (\<forall>v. map_of d ''Vendor'' = Some v \<longrightarrow> snd (varbind_args cfg d n ! 8) = PStr (py_str v))
     \<and> (map_of d ''Caption'' = Some (PStr []) \<longrightarrow> snd (varbind_args cfg d n ! 5) = PStr [])
     \<and> (map_of d ''Status'' = Some (PStr []) \<longrightarrow> snd (varbind_args cfg d n ! 4) = PStr [])
     \<and> (map_of d ''Vendor'' = Some (PStr []) \<longrightarrow> snd (varbind_args cfg d n ! 8) = PStr [])
     \<and> (map_of d ''Caption'' = Some PNone \<longrightarrow> snd (varbind_args cfg d n ! 5) = PStr ''None'')
     \<and> construir_varbinds cfg octet (PDict d)
           = collect (map (varbind octet) (varbind_args cfg d n))
     \<and> (\<forall>vbs. construir_varbinds cfg octet (PDict d) = Inr vbs \<longrightarrow>
           length vbs = 9
         \<and> (\<forall>i < 9. fst (vbs ! i) = ObjectIdentity (fst (varbind_args cfg d n ! i))
                    \<and> octet (snd (varbind_args cfg d n ! i)) = Inr (snd (vbs ! i))))"
proof -
  note cv = construir_varbinds_dict [OF assms, of cfg octet]
  have f: "(\<forall>v. map_of d ''NodeIP'' = Some v \<and> \<not> py_truthy v \<longrightarrow>
           snd (varbind_args cfg d n ! 6) = PStr (ip_mock_por_nodeid n))
     \<and> (\<forall>v. map_of d ''location'' = Some v \<and> \<not> py_truthy v \<longrightarrow>
           snd (varbind_args cfg d n ! 3) = PStr (DEFAULT_LOCATION cfg))
     \<and> (\<forall>v. map_of d ''Caption'' = Some v \<longrightarrow> snd (varbind_args cfg d n ! 5) = PStr (py_str v))
     \<and> (\<forall>v. map_of d ''Status'' = Some v \<longrightarrow>
           snd (varbind_args cfg d n ! 4) = PStr (py_lower (py_str v)))
     \<and> (\<forall>v. map_of d ''Vendor'' = Some v \<longrightarrow> snd (varbind_args cfg d n ! 8) = PStr (py_str v))
     \<and> (map_of d ''Caption'' = Some (PStr []) \<longrightarrow> snd (varbind_args cfg d n ! 5) = PStr [])
     \<and> (map_of d ''Status'' = Some (PStr []) \<longrightarrow> snd (varbind_args cfg d n ! 4) = PStr [])
     \<and> (map_of d ''Vendor'' = Some (PStr []) \<longrightarrow> snd (varbind_args cfg d n ! 8) = PStr [])
     \<and> (map_of d ''Caption'' = Some PNone \<longrightarrow> snd (varbind_args cfg d n ! 5) = PStr ''None'')"
    unfolding varbind_args_list
    by (auto simp add: dict_get_Some py_or_falsy py_str_simps py_lower_def)
  have out: "\<forall>vbs. construir_varbinds cfg octet (PDict d) = Inr vbs \<longrightarrow>
           length vbs = 9
         \<and> (\<forall>i < 9. fst (vbs ! i) = ObjectIdentity (fst (varbind_args cfg d n ! i))
                    \<and> octet (snd (varbind_args cfg d n ! i)) = Inr (snd (vbs ! i)))"
  proof (intro allI impI)
    fix vbs
    assume "construir_varbinds cfg octet (PDict d) = Inr vbs"
    then have c: "collect (map (varbind octet) (varbind_args cfg d n)) = Inr vbs"
      by (simp add: cv)
    have l: "length vbs = 9"
      using collect_varbinds_length [OF c] by (simp add: varbind_args_length)
    have "\<forall>i < 9. fst (vbs ! i) = ObjectIdentity (fst (varbind_args cfg d n ! i))
                    \<and> octet (snd (varbind_args cfg d n ! i)) = Inr (snd (vbs ! i))"
      using collect_varbinds_nth [OF c] by (simp add: varbind_args_length)
    with l show "length vbs = 9
         \<and> (\<forall>i < 9. fst (vbs ! i) = ObjectIdentity (fst (varbind_args cfg d n ! i))
                    \<and> octet (snd (varbind_args cfg d n ! i)) = Inr (snd (vbs ! i)))"
      by blast
  qed
  show ?thesis using f cv out by blast
qed

theorem fallback_asymmetry_witness:
  "py_int (dict_get [(''NodeID'', PInt 5), (''NodeIP'', PStr []), (''location'', PNone),
       (''Caption'', PNone), (''Status'', PStr []), (''Vendor'', PStr [])] ''NodeID'') = Inr 5
   \<and> construir_varbinds default_config pysnmp_OctetString
        (PDict [(''NodeID'', PInt 5), (''NodeIP'', PStr []), (''location'', PNone),
           (''Caption'', PNone), (''Status'', PStr []), (''Vendor'', PStr [])])
     = Inr
     [(ObjectIdentity ''1.3.6.1.2.1.1.3.0'', OctetString ''0''),
      (ObjectIdentity ''1.3.6.1.6.3.1.1.4.1.0'', OctetString ''1.3.6.1.4.1.11307.10''),
      (ObjectIdentity ''1.3.6.1.6.3.1.1.4.3.0'', OctetString ''1.3.6.1.4.1.11307''),
      (ObjectIdentity ''1.3.6.1.2.1.1.6.0'', OctetString ''unknown''),
      (ObjectIdentity ''1.3.6.1.4.1.11307.10.1'', OctetString []),
      (ObjectIdentity ''1.3.6.1.4.1.11307.10.2'', OctetString ''None''),
      (ObjectIdentity ''1.3.6.1.4.1.11307.10.3'', OctetString ''10.199.0.5''),
      (ObjectIdentity ''1.3.6.1.4.1.11307.10.4'', OctetString ''5''),
      (ObjectIdentity ''1.3.6.1.4.1.11307.10.5'', OctetString [])]"
proof -
  let ?d = "[(''NodeID'', PInt 5), (''NodeIP'', PStr []), (''location'', PNone),
       (''Caption'', PNone), (''Status'', PStr []), (''Vendor'', PStr [])]"
  have h: "py_int (dict_get ?d ''NodeID'') = Inr 5"
    by (rule py_int_NodeID)
  have cv: "construir_varbinds default_config pysnmp_OctetString (PDict ?d)
      = collect (map (varbind pysnmp_OctetString) (varbind_args default_config ?d 5))"
    using fallback_asymmetry [OF h] by blast
  have ev: "collect (map (varbind pysnmp_OctetString) (varbind_args default_config ?d 5))
     = Inr
     [(ObjectIdentity ''1.3.6.1.2.1.1.3.0'', OctetString ''0''),
      (ObjectIdentity ''1.3.6.1.6.3.1.1.4.1.0'', OctetString ''1.3.6.1.4.1.11307.10''),
      (ObjectIdentity ''1.3.6.1.6.3.1.1.4.3.0'', OctetString ''1.3.6.1.4.1.11307''),
      (ObjectIdentity ''1.3.6.1.2.1.1.6.0'', OctetString ''unknown''),
      (ObjectIdentity ''1.3.6.1.4.1.11307.10.1'', OctetString []),
      (ObjectIdentity ''1.3.6.1.4.1.11307.10.2'', OctetString ''None''),
      (ObjectIdentity ''1.3.6.1.4.1.11307.10.3'', OctetString ''10.199.0.5''),
      (ObjectIdentity ''1.3.6.1.4.1.11307.10.4'', OctetString ''5''),
      (ObjectIdentity ''1.3.6.1.4.1.11307.10.5'', OctetString [])]"
    by (simp add: varbind_args_list default_config_def str_int_5 ip_mock_5
          dict_get_def dict_get_default_def py_or_def py_str_simps py_lower_def
          varbind_pysnmp_text)
  show ?thesis
    unfolding cv ev using h by simp
qed

section \<open>The fetcher\<close>

lemma fetch_body_response:
  assumes "get (API_URL cfg) (API_USER cfg, API_PASS cfg) TIMEOUT_SECONDS = Inr r"
  shows "fetch_body cfg get =
     (if status_code r = 401 then Inl AuthError
      else if status_code r \<noteq> 200 then Inl (UnexpectedResponseError (status_code r))
      else case json r of
             Inl e \<Rightarrow> Inl e
           | Inr data \<Rightarrow> (case data of PList xs \<Rightarrow> Inr xs | _ \<Rightarrow> Inl MalformedPayloadError))"
  using assms
  by (simp add: fetch_body_def AuthError_def UnexpectedResponseError_def MalformedPayloadError_def
        split: sum.split pyval.split)

lemma fetch_body_raised:
  assumes "get (API_URL cfg) (API_USER cfg, API_PASS cfg) TIMEOUT_SECONDS = Inl e"
  shows "fetch_body cfg get = Inl e"
  using assms by (simp add: fetch_body_def)

lemma obtener_nodos_fst: "fst (obtener_nodos cfg get) = fetch_body cfg get"
  by (simp add: obtener_nodos_def split: sum.split)

lemma str_int_500: "str_int 500 = ''500''"
  by code_simp

text \<open>
  C4, as the specification states it, asks for a malformed-payload failure whenever the
  decoded body is not a sequence of records. The fetcher only asks for a list: the body
  \<^verbatim>\<open>[1]\<close>, a list whose element is no record, is returned as it is and nothing is
  logged.
\<close>

theorem obtener_nodos_list_of_non_records:
  "\<not> sequence_of_records (PList [PInt 1])
   \<and> obtener_nodos default_config (answer (PList [PInt 1])) = (Inr [PInt 1], [])"
  by (simp add: sequence_of_records_def obtener_nodos_def fetch_body_def answer_def)

text \<open>
  C4, amended. When the request is answered, the fetcher fails with the authentication
  error on status 401, with the unexpected-response error (carrying the status) on any
  other status that is not 200, which covers every non-success status, and with the
  malformed-payload error when the decoded body is not a list; each failure is written to
  the error log. It returns nodes exactly when the request is answered with status 200 and
  a body that decodes to a list, and then it returns that list, whose elements it does not
  inspect.
\<close>

theorem obtener_nodos_classification:
  "(\<forall>r. get (API_URL cfg) (API_USER cfg, API_PASS cfg) TIMEOUT_SECONDS = Inr r \<longrightarrow>
      (status_code r = 401 \<longrightarrow>
         obtener_nodos cfg get = (Inl AuthError, [ErrorLog ''Error al obtener nodos'' AuthError]))
    \<and> (status_code r \<noteq> 401 \<and> status_code r \<noteq> 200 \<longrightarrow>
         obtener_nodos cfg get =
           (Inl (UnexpectedResponseError (status_code r)),
            [ErrorLog ''Error al obtener nodos'' (UnexpectedResponseError (status_code r))]))
    \<and> (\<forall>data. status_code r = 200 \<and> json r = Inr data \<and> (\<forall>xs. data \<noteq> PList xs) \<longrightarrow>
         obtener_nodos cfg get =
           (Inl MalformedPayloadError, [ErrorLog ''Error al obtener nodos'' MalformedPayloadError])))
   \<and> (\<forall>xs. fst (obtener_nodos cfg get) = Inr xs \<longleftrightarrow>
         (\<exists>r. get (API_URL cfg) (API_USER cfg, API_PASS cfg) TIMEOUT_SECONDS = Inr r
              \<and> status_code r = 200 \<and> json r = Inr (PList xs)))"
proof (intro conjI allI impI)
  fix r
  assume g: "get (API_URL cfg) (API_USER cfg, API_PASS cfg) TIMEOUT_SECONDS = Inr r"
  { assume "status_code r = 401"
    then show "obtener_nodos cfg get = (Inl AuthError, [ErrorLog ''Error al obtener nodos'' AuthError])"
      by (simp add: obtener_nodos_def fetch_body_response [of get cfg r, OF g]) }
  { assume "status_code r \<noteq> 401 \<and> status_code r \<noteq> 200"
    then show "obtener_nodos cfg get =
           (Inl (UnexpectedResponseError (status_code r)),
            [ErrorLog ''Error al obtener nodos'' (UnexpectedResponseError (status_code r))])"
      by (simp add: obtener_nodos_def fetch_body_response [of get cfg r, OF g]) }
  { fix data
    assume "status_code r = 200 \<and> json r = Inr data \<and> (\<forall>xs. data \<noteq> PList xs)"
    then show "obtener_nodos cfg get =
           (Inl MalformedPayloadError, [ErrorLog ''Error al obtener nodos'' MalformedPayloadError])"
      by (cases data) (simp_all add: obtener_nodos_def fetch_body_response [of get cfg r, OF g]) }
next
  fix xs
  show "fst (obtener_nodos cfg get) = Inr xs \<longleftrightarrow>
         (\<exists>r. get (API_URL cfg) (API_USER cfg, API_PASS cfg) TIMEOUT_SECONDS = Inr r
              \<and> status_code r = 200 \<and> json r = Inr (PList xs))"
  proof (cases "get (API_URL cfg) (API_USER cfg, API_PASS cfg) TIMEOUT_SECONDS")
    case (Inl e)
    then show ?thesis by (simp add: obtener_nodos_fst fetch_body_raised)
  next
    case (Inr r)
    then show ?thesis
      by (auto simp add: obtener_nodos_fst fetch_body_response [of get cfg r, OF Inr]
            split: sum.splits pyval.splits if_splits)
  qed
qed

theorem obtener_nodos_classification_witness:
  "obtener_nodos default_config (\<lambda>url auth timeout. Inr \<lparr>status_code = 401, json = Inl ValueError\<rparr>)
     = (Inl AuthError, [ErrorLog ''Error al obtener nodos'' AuthError])
   \<and> fst (obtener_nodos default_config
        (\<lambda>url auth timeout. Inr \<lparr>status_code = 500, json = Inl ValueError\<rparr>))
     = Inl (BifrostAPIError ''Respuesta inesperada: 500'')
   \<and> fst (obtener_nodos default_config
        (\<lambda>url auth timeout. Inr \<lparr>status_code = 200, json = Inr (PDict [(''nodes'', PList [])])\<rparr>))
     = Inl (BifrostAPIError ''El payload no es una lista'')
   \<and> fst (obtener_nodos default_config
        (\<lambda>url auth timeout. Inr \<lparr>status_code = 200, json = Inr (PList [PDict [(''NodeID'', PInt 5)]])\<rparr>))
     = Inr [PDict [(''NodeID'', PInt 5)]]"
  using obtener_nodos_classification [of "\<lambda>url auth timeout. Inr \<lparr>status_code = 401, json = Inl ValueError\<rparr>" default_config]
    obtener_nodos_classification [of "\<lambda>url auth timeout. Inr \<lparr>status_code = 500, json = Inl ValueError\<rparr>" default_config]
    obtener_nodos_classification [of "\<lambda>url auth timeout. Inr \<lparr>status_code = 200, json = Inr (PDict [(''nodes'', PList [])])\<rparr>" default_config]
    obtener_nodos_classification [of "\<lambda>url auth timeout. Inr \<lparr>status_code = 200, json = Inr (PList [PDict [(''NodeID'', PInt 5)]])\<rparr>" default_config]
  by (simp add: UnexpectedResponseError_def MalformedPayloadError_def str_int_500)

section \<open>The sender\<close>

lemma enviar_trap_cases:
  "enviar_trap cfg send varbinds target =
     (case send (target, TRAP_RECEIVER_PORT cfg) (SNMP_COMMUNITY cfg)
             (ObjectIdentity (ENTERPRISE_TRAP_OID cfg)) varbinds of
        Inl e \<Rightarrow> Inl e
      | Inr (Tuple4 ind st idx) \<Rightarrow>
          (case ind of
             Indication msg \<Rightarrow> Inl (RuntimeError msg)
           | NoIndication \<Rightarrow>
               if status_value st = 0 then Inr ()
               else Inl (RuntimeError (status_text st @ '' at '' @ str_int idx)))
      | Inr (NotTuple4 ind) \<Rightarrow>
          (case ind of
             Indication msg \<Rightarrow> Inl (RuntimeError msg)
           | NoIndication \<Rightarrow> Inr ()))"
  by (simp add: enviar_trap_def unpack_result_def
        split: sum.split notification_result.split error_indication.split)

lemma enviar_trap_answered:
  "enviar_trap cfg (answered res) vbs target =
     (case res of
        Tuple4 ind st idx \<Rightarrow>
          (case ind of
             Indication msg \<Rightarrow> Inl (RuntimeError msg)
           | NoIndication \<Rightarrow>
               if status_value st = 0 then Inr ()
               else Inl (RuntimeError (status_text st @ '' at '' @ str_int idx)))
      | NotTuple4 ind \<Rightarrow>
          (case ind of
             Indication msg \<Rightarrow> Inl (RuntimeError msg)
           | NoIndication \<Rightarrow> Inr ()))"
  by (simp add: enviar_trap_cases answered_def)

text \<open>
  C6, as the specification states it, has two kinds of failure, a transport error for an
  error indication and a protocol error, carrying the error index, for a non-zero error
  status. The sender raises the one class \<^verbatim>\<open>RuntimeError\<close> for both and looks at the
  indication first. A result with the indication \<^verbatim>\<open>timeout\<close> and the non-zero status
  \<^verbatim>\<open>noSuchName\<close> at index 3 fails with the text \<^verbatim>\<open>timeout\<close>, which carries no index;
  and an indication that prints as \<^verbatim>\<open>noSuchName at 3\<close> raises the very exception that
  the status \<^verbatim>\<open>noSuchName\<close> at index 3 raises, so the two kinds are not told apart.
\<close>

theorem enviar_trap_kinds_overlap:
  "enviar_trap default_config
      (answered (Tuple4 (Indication ''timeout'') \<lparr>status_value = 2, status_text = ''noSuchName''\<rparr> 3))
      [] None = Inl (TransportError ''timeout'')
   \<and> enviar_trap default_config
      (answered (Tuple4 (Indication ''timeout'') \<lparr>status_value = 2, status_text = ''noSuchName''\<rparr> 3))
      [] None \<noteq> Inl (ProtocolError \<lparr>status_value = 2, status_text = ''noSuchName''\<rparr> 3)
   \<and> enviar_trap default_config
      (answered (Tuple4 (Indication ''noSuchName at 3'') \<lparr>status_value = 0, status_text = ''noError''\<rparr> 0))
      [] None
     = enviar_trap default_config
      (answered (Tuple4 NoIndication \<lparr>status_value = 2, status_text = ''noSuchName''\<rparr> 3))
      [] None
   \<and> TransportError ''noSuchName at 3''
     = ProtocolError \<lparr>status_value = 2, status_text = ''noSuchName''\<rparr> 3"
  by (simp add: enviar_trap_answered TransportError_def ProtocolError_def str_int_3)

text \<open>
  C6, amended. An exception of the notification call leaves the sender as it is. When
  the call returns a 4-tuple, an error indication makes the sender fail with
  \<^verbatim>\<open>RuntimeError\<close> carrying the indication's text, whatever the error status; without
  an indication, a non-zero error status makes it fail with \<^verbatim>\<open>RuntimeError\<close> carrying
  the status name, \<^verbatim>\<open>at\<close> and the error index; and it succeeds otherwise. A result that
  is not a 4-tuple is the indication alone: the sender fails with its text, or succeeds
  when it is false. So the sender succeeds exactly when the call returns a result with no
  error indication and an error status of zero.
\<close>

theorem enviar_trap_classification:
  "enviar_trap cfg send varbinds target =
     (case send (target, TRAP_RECEIVER_PORT cfg) (SNMP_COMMUNITY cfg)
             (ObjectIdentity (ENTERPRISE_TRAP_OID cfg)) varbinds of
        Inl e \<Rightarrow> Inl e
      | Inr (Tuple4 ind st idx) \<Rightarrow>
          (case ind of
             Indication msg \<Rightarrow> Inl (RuntimeError msg)
           | NoIndication \<Rightarrow>
               if status_value st = 0 then Inr ()
               else Inl (RuntimeError (status_text st @ '' at '' @ str_int idx)))
      | Inr (NotTuple4 ind) \<Rightarrow>
          (case ind of
             Indication msg \<Rightarrow> Inl (RuntimeError msg)
           | NoIndication \<Rightarrow> Inr ()))
   \<and> (enviar_trap cfg send varbinds target = Inr () \<longleftrightarrow>
        (\<exists>st idx. send (target, TRAP_RECEIVER_PORT cfg) (SNMP_COMMUNITY cfg)
                     (ObjectIdentity (ENTERPRISE_TRAP_OID cfg)) varbinds
                   = Inr (Tuple4 NoIndication st idx) \<and> status_value st = 0)
        \<or> send (target, TRAP_RECEIVER_PORT cfg) (SNMP_COMMUNITY cfg)
              (ObjectIdentity (ENTERPRISE_TRAP_OID cfg)) varbinds
            = Inr (NotTuple4 NoIndication))"
proof
  show "enviar_trap cfg send varbinds target =
     (case send (target, TRAP_RECEIVER_PORT cfg) (SNMP_COMMUNITY cfg)
             (ObjectIdentity (ENTERPRISE_TRAP_OID cfg)) varbinds of
        Inl e \<Rightarrow> Inl e
      | Inr (Tuple4 ind st idx) \<Rightarrow>
          (case ind of
             Indication msg \<Rightarrow> Inl (RuntimeError msg)
           | NoIndication \<Rightarrow>
               if status_value st = 0 then Inr ()
               else Inl (RuntimeError (status_text st @ '' at '' @ str_int idx)))
      | Inr (NotTuple4 ind) \<Rightarrow>
          (case ind of
             Indication msg \<Rightarrow> Inl (RuntimeError msg)
           | NoIndication \<Rightarrow> Inr ()))"
    by (rule enviar_trap_cases)
  show "enviar_trap cfg send varbinds target = Inr () \<longleftrightarrow>
        (\<exists>st idx. send (target, TRAP_RECEIVER_PORT cfg) (SNMP_COMMUNITY cfg)
                     (ObjectIdentity (ENTERPRISE_TRAP_OID cfg)) varbinds
                   = Inr (Tuple4 NoIndication st idx) \<and> status_value st = 0)
        \<or> send (target, TRAP_RECEIVER_PORT cfg) (SNMP_COMMUNITY cfg)
              (ObjectIdentity (ENTERPRISE_TRAP_OID cfg)) varbinds
            = Inr (NotTuple4 NoIndication)"
    unfolding enviar_trap_cases
    by (auto split: sum.splits notification_result.splits error_indication.splits if_splits)
qed

theorem enviar_trap_classification_witness:
  "enviar_trap default_config
      (answered (Tuple4 NoIndication \<lparr>status_value = 0, status_text = ''noError''\<rparr> 0))
      [] None = Inr ()
   \<and> enviar_trap default_config
      (answered (Tuple4 (Indication ''timeout'') \<lparr>status_value = 0, status_text = ''noError''\<rparr> 0))
      [] None = Inl (RuntimeError ''timeout'')
   \<and> enviar_trap default_config
      (answered (Tuple4 NoIndication \<lparr>status_value = 2, status_text = ''noSuchName''\<rparr> 3))
      [] None = Inl (RuntimeError ''noSuchName at 3'')
   \<and> enviar_trap default_config (answered (NotTuple4 NoIndication)) [] None = Inr ()
   \<and> enviar_trap default_config (answered (NotTuple4 (Indication ''no route''))) [] None
       = Inl (RuntimeError ''no route'')
   \<and> enviar_trap default_config (raising (LibraryError ''bad address'')) [] None
       = Inl (LibraryError ''bad address'')"
  using
    enviar_trap_classification [of default_config
       "answered (Tuple4 NoIndication \<lparr>status_value = 0, status_text = ''noError''\<rparr> 0)" "[]" None]
    enviar_trap_classification [of default_config
       "answered (Tuple4 (Indication ''timeout'') \<lparr>status_value = 0, status_text = ''noError''\<rparr> 0)" "[]" None]
    enviar_trap_classification [of default_config
       "answered (Tuple4 NoIndication \<lparr>status_value = 2, status_text = ''noSuchName''\<rparr> 3)" "[]" None]
    enviar_trap_classification [of default_config "answered (NotTuple4 NoIndication)" "[]" None]
    enviar_trap_classification [of default_config "answered (NotTuple4 (Indication ''no route''))" "[]" None]
    enviar_trap_classification [of default_config "raising (LibraryError ''bad address'')" "[]" None]
  by (simp add: answered_def raising_def str_int_3)

section \<open>The run\<close>

lemma built_append: "built (es @ es') = built es @ built es'"
  by (induction es rule: built.induct) simp_all

lemma sent_append: "sent (es @ es') = sent es @ sent es'"
  by (induction es rule: sent.induct) simp_all

lemma sleep_total_append: "sleep_total (es @ es') = sleep_total es + sleep_total es'"
  by (induction es rule: sleep_total.induct) simp_all

lemma summary_emitted_append:
  "summary_emitted (es @ es') \<longleftrightarrow> summary_emitted es \<or> summary_emitted es'"
  by (induction es rule: summary_emitted.induct) simp_all

lemma paced_append_summary: "paced w (es @ [ExecLogSent n, PrintOk]) = paced w es"
  by (induction w es rule: paced.induct) simp_all

lemma node_okD:
  assumes "node_ok cfg octet send nodo"
  obtains vb where "construir_varbinds cfg octet nodo = Inr vb"
    and "enviar_trap cfg send vb (TRAP_RECEIVER_IP cfg) = Inr ()"
  using assms by (auto simp add: node_ok_def split: sum.splits)

lemma main_loop_ok:
  assumes "\<forall>j<length nodos. node_ok cfg octet (net (i + j)) (nodos ! j)"
  shows "\<exists>tr. main_loop cfg octet net i nodos = (Inr (), tr) \<and> built tr = nodos
           \<and> map Inr (sent tr) = map (construir_varbinds cfg octet) nodos
           \<and> sleep_total tr = 20 * length nodos \<and> paced False tr
           \<and> \<not> summary_emitted tr \<and> PrintOk \<notin> set tr"
  using assms
proof (induction nodos arbitrary: i)
  case Nil
  then show ?case by simp
next
  case (Cons nodo rest)
  from Cons.prems have "node_ok cfg octet (net (i + 0)) ((nodo # rest) ! 0)" by blast
  then have ok: "node_ok cfg octet (net i) nodo" by simp
  then obtain vb where vb: "construir_varbinds cfg octet nodo = Inr vb"
    and sd: "enviar_trap cfg (net i) vb (TRAP_RECEIVER_IP cfg) = Inr ()"
    by (rule node_okD)
  have "\<forall>j<length rest. node_ok cfg octet (net (Suc i + j)) (rest ! j)"
  proof (intro allI impI)
    fix j assume "j < length rest"
    then have "Suc j < length (nodo # rest)" by simp
    with Cons.prems have "node_ok cfg octet (net (i + Suc j)) ((nodo # rest) ! Suc j)" by blast
    then show "node_ok cfg octet (net (Suc i + j)) (rest ! j)" by simp
  qed
  from Cons.IH [OF this] obtain tr where
    tr: "main_loop cfg octet net (Suc i) rest = (Inr (), tr)" "built tr = rest"
      "map Inr (sent tr) = map (construir_varbinds cfg octet) rest"
      "sleep_total tr = 20 * length rest" "paced False tr"
      "\<not> summary_emitted tr" "PrintOk \<notin> set tr"
    by blast
  show ?case using vb sd tr by simp
qed

lemma main_loop_abort:
  assumes "k < length nodos"
    and "\<forall>j<k. node_ok cfg octet (net (i + j)) (nodos ! j)"
    and "\<not> node_ok cfg octet (net (i + k)) (nodos ! k)"
  shows "\<exists>e tr. main_loop cfg octet net i nodos = (Inl e, tr) \<and> built tr = take (Suc k) nodos
           \<and> length (sent tr) \<le> Suc k
           \<and> map Inr (sent tr) = map (construir_varbinds cfg octet) (take (length (sent tr)) nodos)
           \<and> \<not> summary_emitted tr \<and> PrintOk \<notin> set tr"
  using assms
proof (induction nodos arbitrary: i k)
  case Nil
  then show ?case by simp
next
  case (Cons nodo rest)
  show ?case
  proof (cases k)
    case 0
    with Cons.prems have bad: "\<not> node_ok cfg octet (net i) nodo" by simp
    show ?thesis
    proof (cases "construir_varbinds cfg octet nodo")
      case (Inl e)
      then show ?thesis using 0 by simp
    next
      case (Inr vb)
      with bad obtain e where "enviar_trap cfg (net i) vb (TRAP_RECEIVER_IP cfg) = Inl e"
        by (cases "enviar_trap cfg (net i) vb (TRAP_RECEIVER_IP cfg)") (simp_all add: node_ok_def)
      with Inr show ?thesis using 0 by simp
    qed
  next
    case (Suc k')
    with Cons.prems have "node_ok cfg octet (net (i + 0)) ((nodo # rest) ! 0)" by blast
    then have "node_ok cfg octet (net i) nodo" by simp
    then obtain vb where vb: "construir_varbinds cfg octet nodo = Inr vb"
      and sd: "enviar_trap cfg (net i) vb (TRAP_RECEIVER_IP cfg) = Inr ()"
      by (rule node_okD)
    have a: "k' < length rest" using Cons.prems(1) Suc by simp
    have b: "\<forall>j<k'. node_ok cfg octet (net (Suc i + j)) (rest ! j)"
    proof (intro allI impI)
      fix j assume "j < k'"
      then have "Suc j < k" using Suc by simp
      with Cons.prems(2) have "node_ok cfg octet (net (i + Suc j)) ((nodo # rest) ! Suc j)" by blast
      then show "node_ok cfg octet (net (Suc i + j)) (rest ! j)" by simp
    qed
    have c: "\<not> node_ok cfg octet (net (Suc i + k')) (rest ! k')"
      using Cons.prems(3) Suc by simp
    from Cons.IH [OF a b c] obtain e tr where
      tr: "main_loop cfg octet net (Suc i) rest = (Inl e, tr)" "built tr = take (Suc k') rest"
        "length (sent tr) \<le> Suc k'"
        "map Inr (sent tr) = map (construir_varbinds cfg octet) (take (length (sent tr)) rest)"
        "\<not> summary_emitted tr" "PrintOk \<notin> set tr"
      by blast
    show ?thesis using vb sd tr Suc by simp
  qed
qed

lemma obtener_nodos_ok:
  assumes "fst (obtener_nodos cfg get) = Inr nodos"
  shows "obtener_nodos cfg get = (Inr nodos, [])"
  using assms by (simp add: obtener_nodos_def split: sum.splits)

lemma main_loop_paced:
  "paced False (snd (main_loop cfg octet net i nodos))
   \<and> 20 * length (sent (snd (main_loop cfg octet net i nodos)))
       \<le> sleep_total (snd (main_loop cfg octet net i nodos)) + 20"
proof (induction nodos arbitrary: i)
  case Nil
  show ?case by simp
next
  case (Cons nodo rest)
  show ?case
    using Cons.IH [of "Suc i"]
    by (auto split: sum.split prod.split)
qed

lemma main_paced:
  "paced False (snd (main cfg octet get net))
   \<and> 20 * length (sent (snd (main cfg octet get net))) \<le> sleep_total (snd (main cfg octet get net)) + 20"
proof (cases "fetch_body cfg get")
  case (Inl e)
  then show ?thesis by (simp add: main_def obtener_nodos_def)
next
  case (Inr nodos)
  then show ?thesis
    using main_loop_paced [of cfg octet net 0 nodos]
    by (cases "main_loop cfg octet net 0 nodos")
      (auto simp add: main_def obtener_nodos_def sent_append sleep_total_append
         paced_append_summary split: sum.split)
qed

lemma construir_varbinds_node:
  assumes "length (str_int i) \<le> 100" and "length (ip_mock_por_nodeid i) \<le> 100"
  shows "\<exists>vbs. construir_varbinds default_config pysnmp_OctetString (node i) = Inr vbs"
  unfolding node_def construir_varbinds_returns_iff [OF py_int_NodeID]
  using assms
  by (simp add: varbind_args_list default_config_def dict_get_def dict_get_default_def
        py_or_def py_str_simps py_lower_unknown pysnmp_OctetString_text)

lemma construir_varbinds_nodes:
  "\<exists>vbs. construir_varbinds default_config pysnmp_OctetString (node 1) = Inr vbs"
  "\<exists>vbs. construir_varbinds default_config pysnmp_OctetString (node 2) = Inr vbs"
  "\<exists>vbs. construir_varbinds default_config pysnmp_OctetString (node 3) = Inr vbs"
  by (rule construir_varbinds_node; simp add: str_int_123 str_int_3 ip_mock_123)+

lemma enviar_trap_delivered: "enviar_trap cfg delivered vb target = Inr ()"
  by (simp add: delivered_def enviar_trap_answered)

lemma enviar_trap_rejected:
  "enviar_trap cfg rejected vb target = Inl (RuntimeError ''noSuchName at 3'')"
  by (simp add: rejected_def enviar_trap_answered str_int_3)

lemma node_ok_delivered:
  "\<exists>vbs. construir_varbinds cfg octet nodo = Inr vbs \<Longrightarrow> node_ok cfg octet delivered nodo"
  by (auto simp add: node_ok_def enviar_trap_delivered)

lemma node_ok_rejected: "\<not> node_ok cfg octet rejected nodo"
  by (simp add: node_ok_def enviar_trap_rejected split: sum.split)

lemma obtener_nodos_answer: "obtener_nodos cfg (answer (PList xs)) = (Inr xs, [])"
  by (simp add: obtener_nodos_def fetch_body_def answer_def)

lemma run_second_rejected:
  "\<exists>v1 v2. run default_config pysnmp_OctetString (answer (PList [node 1, node 2, node 3]))
              (\<lambda>i. if i = 1 then rejected else delivered)
     = [ExecLogFetch 3,
        Build (node 1), SendTrap v1 (TRAP_RECEIVER_IP default_config), Sleep 20,
        Build (node 2), SendTrap v2 (TRAP_RECEIVER_IP default_config),
        ErrorLog ''Fallo en BIFROST sender'' (RuntimeError ''noSuchName at 3''),
        PrintError (RuntimeError ''noSuchName at 3'')]"
proof -
  obtain v1 where v1: "construir_varbinds default_config pysnmp_OctetString (node 1) = Inr v1"
    using construir_varbinds_nodes(1) by blast
  obtain v2 where v2: "construir_varbinds default_config pysnmp_OctetString (node 2) = Inr v2"
    using construir_varbinds_nodes(2) by blast
  have "run default_config pysnmp_OctetString (answer (PList [node 1, node 2, node 3]))
              (\<lambda>i. if i = 1 then rejected else delivered)
     = [ExecLogFetch 3,
        Build (node 1), SendTrap v1 (TRAP_RECEIVER_IP default_config), Sleep 20,
        Build (node 2), SendTrap v2 (TRAP_RECEIVER_IP default_config),
        ErrorLog ''Fallo en BIFROST sender'' (RuntimeError ''noSuchName at 3''),
        PrintError (RuntimeError ''noSuchName at 3'')]"
    by (simp add: run_def main_def obtener_nodos_answer v1 v2 enviar_trap_delivered
          enviar_trap_rejected)
  then show ?thesis by blast
qed

text \<open>
  C5. Take a run whose fetch returns the nodes, where the nodes before position \<open>k\<close> go
  through and the node at position \<open>k\<close> fails in its translation or in its send. Then
  \<^verbatim>\<open>main\<close> raises; the translator was called on the nodes up to position \<open>k\<close> and on
  no later one; every send is of the translation of a node up to position \<open>k\<close>; the send
  summary is not logged and the success marker is not printed; and the script logs the
  failure and prints the failure marker. In the run over three nodes whose second send is
  answered with a protocol error, two nodes are translated, two sends are made, and the
  last thing the run does is to print the failure.
\<close>

theorem abort_on_first_failure:
  assumes "fst (obtener_nodos cfg get) = Inr nodos"
    and "k < length nodos"
    and "\<forall>j<k. node_ok cfg octet (net j) (nodos ! j)"
    and "\<not> node_ok cfg octet (net k) (nodos ! k)"
  shows "\<exists>e tr. main cfg octet get net = (Inl e, tr)
           \<and> built tr = take (Suc k) nodos
           \<and> length (sent tr) \<le> Suc k
           \<and> map Inr (sent tr) = map (construir_varbinds cfg octet) (take (length (sent tr)) nodos)
           \<and> \<not> summary_emitted tr \<and> PrintOk \<notin> set tr
           \<and> run cfg octet get net = tr @ [ErrorLog ''Fallo en BIFROST sender'' e, PrintError e]
           \<and> \<not> summary_emitted (run cfg octet get net) \<and> PrintOk \<notin> set (run cfg octet get net)"
proof -
  from assms(3) have "\<forall>j<k. node_ok cfg octet (net (0 + j)) (nodos ! j)" by simp
  moreover from assms(4) have "\<not> node_ok cfg octet (net (0 + k)) (nodos ! k)" by simp
  ultimately obtain e tr where
    tr: "main_loop cfg octet net 0 nodos = (Inl e, tr)" "built tr = take (Suc k) nodos"
      "length (sent tr) \<le> Suc k"
      "map Inr (sent tr) = map (construir_varbinds cfg octet) (take (length (sent tr)) nodos)"
      "\<not> summary_emitted tr" "PrintOk \<notin> set tr"
    using main_loop_abort [OF assms(2), of cfg octet net 0] by blast
  have m: "main cfg octet get net = (Inl e, ExecLogFetch (length nodos) # tr)"
    by (simp add: main_def obtener_nodos_ok [OF assms(1)] tr(1))
  show ?thesis
    using tr by (simp add: m run_def summary_emitted_append)
qed

theorem abort_on_first_failure_witness:
  "fst (obtener_nodos default_config (answer (PList [node 1, node 2, node 3])))
     = Inr [node 1, node 2, node 3]
   \<and> (1::nat) < length [node 1, node 2, node 3]
   \<and> node_ok default_config pysnmp_OctetString delivered (node 1)
   \<and> \<not> node_ok default_config pysnmp_OctetString rejected (node 2)
   \<and> built (run default_config pysnmp_OctetString (answer (PList [node 1, node 2, node 3]))
              (\<lambda>i. if i = 1 then rejected else delivered)) = [node 1, node 2]
   \<and> length (sent (run default_config pysnmp_OctetString (answer (PList [node 1, node 2, node 3]))
              (\<lambda>i. if i = 1 then rejected else delivered))) = 2
   \<and> \<not> summary_emitted (run default_config pysnmp_OctetString
              (answer (PList [node 1, node 2, node 3]))
              (\<lambda>i. if i = 1 then rejected else delivered))
   \<and> last (run default_config pysnmp_OctetString (answer (PList [node 1, node 2, node 3]))
              (\<lambda>i. if i = 1 then rejected else delivered))
       = PrintError (RuntimeError ''noSuchName at 3'')"
proof -
  let ?nodos = "[node 1, node 2, node 3]"
  let ?net = "\<lambda>i::nat. if i = 1 then rejected else delivered"
  let ?run = "run default_config pysnmp_OctetString (answer (PList ?nodos)) ?net"
  have ok1: "node_ok default_config pysnmp_OctetString delivered (node 1)"
    by (rule node_ok_delivered) (rule construir_varbinds_nodes)
  have h1: "fst (obtener_nodos default_config (answer (PList ?nodos))) = Inr ?nodos"
    by (simp add: obtener_nodos_answer)
  have h2: "(1::nat) < length ?nodos" by simp
  have h3: "\<forall>j<1. node_ok default_config pysnmp_OctetString (?net j) (?nodos ! j)"
    by (simp add: ok1)
  have h4: "\<not> node_ok default_config pysnmp_OctetString (?net 1) (?nodos ! 1)"
    by (simp add: node_ok_rejected)
  from abort_on_first_failure [OF h1 h2 h3 h4]
  have a: "built ?run = [node 1, node 2]"
    and b: "\<not> summary_emitted ?run"
    by (auto simp add: built_append)
  from run_second_rejected obtain v1 v2 where
    r: "?run
     = [ExecLogFetch 3,
        Build (node 1), SendTrap v1 (TRAP_RECEIVER_IP default_config), Sleep 20,
        Build (node 2), SendTrap v2 (TRAP_RECEIVER_IP default_config),
        ErrorLog ''Fallo en BIFROST sender'' (RuntimeError ''noSuchName at 3''),
        PrintError (RuntimeError ''noSuchName at 3'')]"
    by blast
  have c: "length (sent ?run) = 2"
    and d: "last ?run = PrintError (RuntimeError ''noSuchName at 3'')"
    unfolding r by simp_all
  show ?thesis
    using h1 a b c d ok1 by (simp add: node_ok_rejected)
qed

text \<open>
  C7. Time is read off the trace: the run sleeps 20 milliseconds after each send that
  succeeds, and nothing else is counted (the network takes no time). In every run no send
  follows another one without a sleep of 20 milliseconds between them, and the sleeps add
  up to at least 20 milliseconds times the number of sends less one. In a run where all
  \<open>N\<close> nodes go through there are \<open>N\<close> sends and the sleeps add up to \<open>20 * N\<close>
  milliseconds, which is at least \<open>20 * (N - 1)\<close>.
\<close>

theorem pacing_between_sends:
  "paced False (snd (main cfg octet get net))
   \<and> 20 * (length (sent (snd (main cfg octet get net))) - 1) \<le> sleep_total (snd (main cfg octet get net))
   \<and> (fst (obtener_nodos cfg get) = Inr nodos
        \<and> (\<forall>j<length nodos. node_ok cfg octet (net j) (nodos ! j))
      \<longrightarrow> (\<exists>tr. main cfg octet get net = (Inr (), tr)
             \<and> length (sent tr) = length nodos
             \<and> sleep_total tr = 20 * length nodos
             \<and> 20 * (length nodos - 1) \<le> sleep_total tr))"
proof (intro conjI impI)
  show "paced False (snd (main cfg octet get net))"
    using main_paced by blast
  have "20 * length (sent (snd (main cfg octet get net))) \<le> sleep_total (snd (main cfg octet get net)) + 20"
    using main_paced by blast
  then show "20 * (length (sent (snd (main cfg octet get net))) - 1)
      \<le> sleep_total (snd (main cfg octet get net))"
    by simp
next
  assume h: "fst (obtener_nodos cfg get) = Inr nodos
        \<and> (\<forall>j<length nodos. node_ok cfg octet (net j) (nodos ! j))"
  then have "\<forall>j<length nodos. node_ok cfg octet (net (0 + j)) (nodos ! j)" by simp
  from main_loop_ok [OF this] obtain tr where
    tr: "main_loop cfg octet net 0 nodos = (Inr (), tr)"
      "map Inr (sent tr) = map (construir_varbinds cfg octet) nodos"
      "sleep_total tr = 20 * length nodos"
    by blast
  from tr(2) have len: "length (sent tr) = length nodos"
    by (metis length_map)
  from h have f: "fst (obtener_nodos cfg get) = Inr nodos" by simp
  have m: "main cfg octet get net =
      (Inr (), ExecLogFetch (length nodos) # tr @ [ExecLogSent (length nodos), PrintOk])"
    by (simp add: main_def obtener_nodos_ok [OF f] tr(1))
  show "\<exists>tr. main cfg octet get net = (Inr (), tr)
             \<and> length (sent tr) = length nodos
             \<and> sleep_total tr = 20 * length nodos
             \<and> 20 * (length nodos - 1) \<le> sleep_total tr"
    using tr len by (simp add: m sent_append sleep_total_append)
qed

theorem pacing_between_sends_witness:
  "fst (obtener_nodos default_config (answer (PList [node 1, node 2, node 3])))
     = Inr [node 1, node 2, node 3]
   \<and> node_ok default_config pysnmp_OctetString delivered (node 1)
   \<and> node_ok default_config pysnmp_OctetString delivered (node 2)
   \<and> node_ok default_config pysnmp_OctetString delivered (node 3)
   \<and> paced False (snd (main default_config pysnmp_OctetString
                         (answer (PList [node 1, node 2, node 3])) (\<lambda>i. delivered)))
   \<and> (\<exists>tr. main default_config pysnmp_OctetString (answer (PList [node 1, node 2, node 3]))
              (\<lambda>i. delivered)
            = (Inr (), tr)
          \<and> length (sent tr) = 3 \<and> sleep_total tr = 60 \<and> (40::nat) \<le> sleep_total tr)"
proof -
  let ?nodos = "[node 1, node 2, node 3]"
  have ok: "node_ok default_config pysnmp_OctetString delivered (node 1)"
    "node_ok default_config pysnmp_OctetString delivered (node 2)"
    "node_ok default_config pysnmp_OctetString delivered (node 3)"
    by (rule node_ok_delivered, rule construir_varbinds_nodes)+
  have h1: "fst (obtener_nodos default_config (answer (PList ?nodos))) = Inr ?nodos"
    by (simp add: obtener_nodos_answer)
  have h2: "\<forall>j<length ?nodos.
      node_ok default_config pysnmp_OctetString ((\<lambda>i. delivered) j) (?nodos ! j)"
    by (simp add: All_less_Suc ok)
  show ?thesis
    using h1 h2 ok
      pacing_between_sends [of default_config pysnmp_OctetString "answer (PList ?nodos)"
         "\<lambda>i. delivered" ?nodos]
    by (simp add: numeral_3_eq_3)
qed

end
